theory Spec2Isabelle
  imports Complex_Main
begin

section \<open>The expression evaluator of the Dan calculator\<close>

text \<open>
  The development embeds \<^verbatim>\<open>safe_eval\<close> of \<^verbatim>\<open>dan_graphical_calculator.py\<close>: the
  function parses its argument with Python's \<^verbatim>\<open>ast.parse(expression, mode="eval")\<close> and
  walks the tree with the nested function \<^verbatim>\<open>_eval\<close>, which dispatches on the node class
  and looks operators up in the module's table \<^verbatim>\<open>_ALLOWED_OPERATORS\<close>.

  What the source takes from the Python runtime is modelled next to it: the syntax tree
  of \<^verbatim>\<open>ast\<close>, the numbers of the language (unbounded \<^verbatim>\<open>int\<close>, \<^verbatim>\<open>bool\<close>,
  binary64 \<^verbatim>\<open>float\<close>, \<^verbatim>\<open>complex\<close>), the six functions of module \<^verbatim>\<open>operator\<close>
  that the table names, and the tokenizer and grammar for the part of the expression
  syntax that the calculator is about. The limits of the interpreter on the depth of
  recursion and on memory are not modelled.
\<close>

subsection \<open>Floating-point numbers\<close>

text \<open>
  A Python \<^verbatim>\<open>float\<close> is an IEEE-754 binary64 value. A finite one is kept as the
  rational it denotes, with the negative zero apart, so that two values are equal exactly
  when they are the same double (all NaNs are one value: Python arithmetic does not
  observe a payload).
\<close>

datatype pyfloat = Finite rat | NegZero | PosInf | NegInf | NaN

text \<open>\<^verbatim>\<open>int.bit_length()\<close> of a positive integer.\<close>

function bit_length :: "int \<Rightarrow> int" where
  "bit_length n = (if n \<le> 0 then 0 else 1 + bit_length (n div 2))"
  by pat_completeness auto
termination
  by (relation "measure nat") auto

declare bit_length.simps [simp del]

text \<open>The integer \<open>k\<close> with \<open>2 ^ k \<le> q < 2 ^ (k + 1)\<close>, for a positive rational \<open>q\<close>.\<close>

definition floor_log2 :: "rat \<Rightarrow> int" where
  "floor_log2 q =
     (let n = fst (quotient_of q); d = snd (quotient_of q);
          k = bit_length n - bit_length d
      in if 2 powi k \<le> q then k else k - 1)"

text \<open>Rounding to the nearest integer, a tie to the even one.\<close>

definition round_half_even :: "rat \<Rightarrow> int" where
  "round_half_even q =
     (let f = \<lfloor>q\<rfloor>; r = q - of_int f
      in if r < 1 / 2 then f
         else if 1 / 2 < r then f + 1
         else if even f then f else f + 1)"

text \<open>
  The double nearest to a rational (round to nearest, ties to even): 53 significant
  bits, the least exponent of a subnormal is \<open>-1074\<close>, and a magnitude that rounds to
  \<open>2 ^ 1024\<close> or more overflows to an infinity. A non-zero rational that rounds to zero
  keeps its sign.
\<close>

definition round64 :: "rat \<Rightarrow> pyfloat" where
  "round64 q =
     (if q = 0 then Finite 0
      else
        let e = max (floor_log2 \<bar>q\<bar> - 52) (- 1074);
            m = round_half_even (\<bar>q\<bar> / 2 powi e);
            v = of_int m * 2 powi e
        in if 2 ^ 1024 \<le> v then (if q < 0 then NegInf else PosInf)
           else if m = 0 then (if q < 0 then NegZero else Finite 0)
           else Finite (if q < 0 then - v else v))"

fun is_zero :: "pyfloat \<Rightarrow> bool" where
  "is_zero (Finite q) = (q = 0)"
| "is_zero NegZero = True"
| "is_zero _ = False"

fun is_inf :: "pyfloat \<Rightarrow> bool" where
  "is_inf PosInf = True"
| "is_inf NegInf = True"
| "is_inf _ = False"

text \<open>The sign bit (of a NaN it is not observed).\<close>

fun sign_bit :: "pyfloat \<Rightarrow> bool" where
  "sign_bit (Finite q) = (q < 0)"
| "sign_bit NegZero = True"
| "sign_bit NegInf = True"
| "sign_bit _ = False"

definition signed_zero :: "bool \<Rightarrow> pyfloat" where
  "signed_zero neg = (if neg then NegZero else Finite 0)"

definition signed_inf :: "bool \<Rightarrow> pyfloat" where
  "signed_inf neg = (if neg then NegInf else PosInf)"

fun float_neg :: "pyfloat \<Rightarrow> pyfloat" where
  "float_neg (Finite q) = (if q = 0 then NegZero else Finite (- q))"
| "float_neg NegZero = Finite 0"
| "float_neg PosInf = NegInf"
| "float_neg NegInf = PosInf"
| "float_neg NaN = NaN"

text \<open>IEEE addition, multiplication and division of doubles.\<close>

fun float_add :: "pyfloat \<Rightarrow> pyfloat \<Rightarrow> pyfloat" where
  "float_add NaN _ = NaN"
| "float_add _ NaN = NaN"
| "float_add PosInf NegInf = NaN"
| "float_add NegInf PosInf = NaN"
| "float_add PosInf _ = PosInf"
| "float_add _ PosInf = PosInf"
| "float_add NegInf _ = NegInf"
| "float_add _ NegInf = NegInf"
| "float_add NegZero y = y"
| "float_add x NegZero = x"
| "float_add (Finite a) (Finite b) = round64 (a + b)"

definition float_sub :: "pyfloat \<Rightarrow> pyfloat \<Rightarrow> pyfloat" where
  "float_sub x y = float_add x (float_neg y)"

fun float_mul :: "pyfloat \<Rightarrow> pyfloat \<Rightarrow> pyfloat" where
  "float_mul NaN _ = NaN"
| "float_mul _ NaN = NaN"
| "float_mul x y =
     (if is_inf x \<or> is_inf y then
        (if is_zero x \<or> is_zero y then NaN else signed_inf (sign_bit x \<noteq> sign_bit y))
      else if is_zero x \<or> is_zero y then signed_zero (sign_bit x \<noteq> sign_bit y)
      else (case (x, y) of (Finite a, Finite b) \<Rightarrow> round64 (a * b) | _ \<Rightarrow> NaN))"

text \<open>The quotient of two doubles the second of which is not a zero.\<close>

fun float_quot :: "pyfloat \<Rightarrow> pyfloat \<Rightarrow> pyfloat" where
  "float_quot NaN _ = NaN"
| "float_quot _ NaN = NaN"
| "float_quot x y =
     (if is_inf x then (if is_inf y then NaN else signed_inf (sign_bit x \<noteq> sign_bit y))
      else if is_inf y \<or> is_zero x then signed_zero (sign_bit x \<noteq> sign_bit y)
      else (case (x, y) of (Finite a, Finite b) \<Rightarrow> round64 (a / b) | _ \<Rightarrow> NaN))"

fun float_abs :: "pyfloat \<Rightarrow> pyfloat" where
  "float_abs x = (if sign_bit x then float_neg x else x)"

text \<open>
  \<^verbatim>\<open>iw == floor(iw)\<close> and the macro \<^verbatim>\<open>DOUBLE_IS_ODD_INTEGER\<close> of CPython's
  \<^verbatim>\<open>floatobject.c\<close>, on a finite double.
\<close>

definition is_integral :: "rat \<Rightarrow> bool" where
  "is_integral q = (of_int \<lfloor>q\<rfloor> = q)"

definition is_odd_integer :: "pyfloat \<Rightarrow> bool" where
  "is_odd_integer x = (case x of Finite q \<Rightarrow> is_integral q \<and> odd \<lfloor>q\<rfloor> | _ \<Rightarrow> False)"

subsection \<open>Syntax trees\<close>

text \<open>
  The operator classes of module \<^verbatim>\<open>ast\<close> (\<^verbatim>\<open>ast.Pow\<close> and \<^verbatim>\<open>ast.Not\<close> carry a
  suffix here), the values a \<^verbatim>\<open>Constant\<close> node can hold, and the expression nodes.
  The node classes that the evaluator never looks into are kept with their children
  where the grammar below builds them, and as \<open>Other_node\<close> with the class name
  otherwise (\<^verbatim>\<open>Compare\<close>, \<^verbatim>\<open>BoolOp\<close>, \<^verbatim>\<open>Lambda\<close>, \<^verbatim>\<open>IfExp\<close>,
  \<^verbatim>\<open>Attribute\<close>, \<^verbatim>\<open>Subscript\<close>, \<^verbatim>\<open>Dict\<close>, ...).
\<close>

datatype operator =
  Add | Sub | Mult | MatMult | Div | Mod | Pow_op | LShift | RShift
  | BitOr | BitXor | BitAnd | FloorDiv

datatype unaryop = Invert | Not_op | UAdd | USub

datatype constant_value =
  Int_value int | Float_value pyfloat | Complex_value pyfloat | Bool_value bool
  | Str_value string | Bytes_value string | None_value | Ellipsis_value

datatype expr =
  BinOp expr operator expr
  | UnaryOp unaryop expr
  | Name string
  | Constant constant_value
  | Call expr "expr list"
  | List "expr list"
  | Tuple "expr list"
  | Other_node string

subsection \<open>Numbers, exceptions, the runtime\<close>

text \<open>
  The numbers an evaluation handles. The annotation \<^verbatim>\<open>dict[str, float]\<close> of the
  parameter \<^verbatim>\<open>variables\<close> admits the real numbers of the language; a complex number
  can come out of a power.
\<close>

datatype pyval = PyInt int | PyBool bool | PyFloat pyfloat | PyComplex pyfloat pyfloat

type_synonym env = "string \<rightharpoonup> pyval"

text \<open>
  The exceptions that leave \<^verbatim>\<open>safe_eval\<close>. The function raises \<^verbatim>\<open>ValueError\<close> with
  four messages, kept here by what they report: \<^verbatim>\<open>Operator ... is not allowed\<close>,
  \<^verbatim>\<open>Unary operator ... is not allowed\<close>, \<^verbatim>\<open>Use of undefined variable ...\<close> and
  \<^verbatim>\<open>Unsupported expression element: ...\<close>. The parser raises \<^verbatim>\<open>SyntaxError\<close>; the
  arithmetic of the runtime raises \<^verbatim>\<open>ZeroDivisionError\<close> and \<^verbatim>\<open>OverflowError\<close>,
  and \<^verbatim>\<open>float()\<close> of a complex number raises \<^verbatim>\<open>TypeError\<close>.
  \<open>Outside_fragment\<close> is no exception of Python: it marks an input that leaves the part
  of the grammar modelled in this theory, about which the model says nothing.
\<close>

datatype message =
  Operator_not_allowed operator
  | Unary_operator_not_allowed unaryop
  | Undefined_variable string
  | Unsupported_element expr

datatype exn =
  SyntaxError | ValueError message | ZeroDivisionError | OverflowError | TypeError
  | Outside_fragment

text \<open>
  What the interpreter computes through the C library or in ways that differ between
  releases is a parameter of the model:
  \<^item> \<open>libm_pow x y\<close>: \<^verbatim>\<open>pow(x, y)\<close> for a finite \<open>x > 0\<close>, \<open>x \<noteq> 1\<close> and a finite
    \<open>y \<noteq> 0\<close>, or \<open>None\<close> when the call reports a range error;
  \<^item> \<open>c_pow_polar x y\<close>: the complex power of a negative real \<open>x\<close> to a finite real
    \<open>y\<close> that is no integer (computed in polar form with \<^verbatim>\<open>hypot\<close>, \<^verbatim>\<open>pow\<close>,
    \<^verbatim>\<open>atan2\<close>, \<^verbatim>\<open>cos\<close>, \<^verbatim>\<open>sin\<close>), or \<open>None\<close> on a range error;
  \<^item> \<open>complex_arith op a b\<close>: the arithmetic on operands one of which is complex;
  \<^item> \<open>int_max_str_digits\<close>: the limit of \<^verbatim>\<open>sys.get_int_max_str_digits()\<close> on the decimal
    digits of an \<^verbatim>\<open>int\<close> converted from or to a string (4300 by default since
    Python 3.11; \<open>0\<close> for no limit, as before).
\<close>

datatype cresult = CValue pyfloat pyfloat | CZeroDivisionError | COverflowError

record runtime =
  libm_pow :: "pyfloat \<Rightarrow> pyfloat \<Rightarrow> pyfloat option"
  c_pow_polar :: "pyfloat \<Rightarrow> pyfloat \<Rightarrow> (pyfloat \<times> pyfloat) option"
  complex_arith :: "operator \<Rightarrow> pyval \<Rightarrow> pyval \<Rightarrow> cresult"
  int_max_str_digits :: nat

subsection \<open>The functions of module \<^verbatim>\<open>operator\<close>\<close>

fun is_complex :: "pyval \<Rightarrow> bool" where
  "is_complex (PyComplex _ _) = True"
| "is_complex _ = False"

text \<open>An \<^verbatim>\<open>int\<close> operand; \<^verbatim>\<open>bool\<close> is a subclass of \<^verbatim>\<open>int\<close>.\<close>

fun to_int :: "pyval \<Rightarrow> int option" where
  "to_int (PyInt i) = Some i"
| "to_int (PyBool b) = Some (if b then 1 else 0)"
| "to_int _ = None"

text \<open>\<^verbatim>\<open>float(i)\<close>: correctly rounded, \<^verbatim>\<open>OverflowError\<close> past the largest double.\<close>

definition float_of_int :: "int \<Rightarrow> exn + pyfloat" where
  "float_of_int i = (let x = round64 (of_int i) in if is_inf x then Inl OverflowError else Inr x)"

fun to_double :: "pyval \<Rightarrow> exn + pyfloat" where
  "to_double (PyFloat x) = Inr x"
| "to_double (PyInt i) = float_of_int i"
| "to_double (PyBool b) = float_of_int (if b then 1 else 0)"
| "to_double (PyComplex _ _) = Inl TypeError"

fun complex_result :: "cresult \<Rightarrow> exn + pyval" where
  "complex_result (CValue re im) = Inr (PyComplex re im)"
| "complex_result CZeroDivisionError = Inl ZeroDivisionError"
| "complex_result COverflowError = Inl OverflowError"

text \<open>
  The dispatch of a binary arithmetic operator on two numbers: complex arithmetic when
  an operand is complex, the \<^verbatim>\<open>int\<close> method when both are \<^verbatim>\<open>int\<close>, and otherwise
  the \<^verbatim>\<open>float\<close> method on both operands converted to doubles.
\<close>

definition binary_op ::
  "runtime \<Rightarrow> operator \<Rightarrow> (int \<Rightarrow> int \<Rightarrow> exn + pyval) \<Rightarrow> (pyfloat \<Rightarrow> pyfloat \<Rightarrow> exn + pyval)
    \<Rightarrow> pyval \<Rightarrow> pyval \<Rightarrow> exn + pyval" where
  "binary_op rt op int_method float_method a b =
     (if is_complex a \<or> is_complex b then complex_result (complex_arith rt op a b)
      else
        (case (to_int a, to_int b) of
          (Some i, Some j) \<Rightarrow> int_method i j
        | _ \<Rightarrow>
          (case to_double a of
            Inl e \<Rightarrow> Inl e
          | Inr x \<Rightarrow> (case to_double b of Inl e \<Rightarrow> Inl e | Inr y \<Rightarrow> float_method x y))))"

definition operator_add :: "runtime \<Rightarrow> pyval \<Rightarrow> pyval \<Rightarrow> exn + pyval" where
  "operator_add rt =
     binary_op rt Add (\<lambda>i j. Inr (PyInt (i + j))) (\<lambda>x y. Inr (PyFloat (float_add x y)))"

definition operator_sub :: "runtime \<Rightarrow> pyval \<Rightarrow> pyval \<Rightarrow> exn + pyval" where
  "operator_sub rt =
     binary_op rt Sub (\<lambda>i j. Inr (PyInt (i - j))) (\<lambda>x y. Inr (PyFloat (float_sub x y)))"

definition operator_mul :: "runtime \<Rightarrow> pyval \<Rightarrow> pyval \<Rightarrow> exn + pyval" where
  "operator_mul rt =
     binary_op rt Mult (\<lambda>i j. Inr (PyInt (i * j))) (\<lambda>x y. Inr (PyFloat (float_mul x y)))"

text \<open>
  True division. Of two \<^verbatim>\<open>int\<close>s it is the correctly rounded quotient; a zero divisor
  raises \<^verbatim>\<open>ZeroDivisionError\<close> for \<^verbatim>\<open>int\<close> and for \<^verbatim>\<open>float\<close>.
\<close>

definition long_true_divide :: "int \<Rightarrow> int \<Rightarrow> exn + pyval" where
  "long_true_divide i j =
     (if j = 0 then Inl ZeroDivisionError
      else if i = 0 then Inr (PyFloat (signed_zero (j < 0)))
      else let x = round64 (of_int i / of_int j)
           in if is_inf x then Inl OverflowError else Inr (PyFloat x))"

definition float_div :: "pyfloat \<Rightarrow> pyfloat \<Rightarrow> exn + pyval" where
  "float_div x y = (if is_zero y then Inl ZeroDivisionError else Inr (PyFloat (float_quot x y)))"

definition operator_truediv :: "runtime \<Rightarrow> pyval \<Rightarrow> pyval \<Rightarrow> exn + pyval" where
  "operator_truediv rt = binary_op rt Div long_true_divide float_div"

text \<open>
  \<^verbatim>\<open>float_pow\<close> of CPython's \<^verbatim>\<open>floatobject.c\<close>, on the two operands as doubles:
  the special cases are sorted out in the order of the C function; a negative base with
  an exponent that is no integer is handed to the complex power, and the remaining case
  goes to \<^verbatim>\<open>pow\<close> of the C library.
\<close>

definition float_pow :: "runtime \<Rightarrow> pyfloat \<Rightarrow> pyfloat \<Rightarrow> exn + pyval" where
  "float_pow rt iv iw =
     (if is_zero iw then Inr (PyFloat (Finite 1))
      else if iv = NaN then Inr (PyFloat NaN)
      else if iw = NaN then Inr (PyFloat (if iv = Finite 1 then Finite 1 else NaN))
      else if is_inf iw then
        (if float_abs iv = Finite 1 then Inr (PyFloat (Finite 1))
         else if (iw = PosInf) = (case float_abs iv of Finite a \<Rightarrow> 1 < a | _ \<Rightarrow> True)
           then Inr (PyFloat PosInf)
         else Inr (PyFloat (Finite 0)))
      else if is_inf iv then
        (if \<not> sign_bit iw then Inr (PyFloat (if is_odd_integer iw then iv else PosInf))
         else Inr (PyFloat (if is_odd_integer iw then signed_zero (sign_bit iv) else Finite 0)))
      else if is_zero iv then
        (if sign_bit iw then Inl ZeroDivisionError
         else Inr (PyFloat (if is_odd_integer iw then iv else Finite 0)))
      else
        (case (iv, iw) of
          (Finite a, Finite w) \<Rightarrow>
            if a < 0 \<and> \<not> is_integral w then
              (case c_pow_polar rt iv iw of
                None \<Rightarrow> Inl OverflowError
              | Some (re, im) \<Rightarrow> Inr (PyComplex re im))
            else
              let negate_result = (a < 0 \<and> is_odd_integer iw) in
              if \<bar>a\<bar> = 1 then Inr (PyFloat (Finite (if negate_result then - 1 else 1)))
              else
                (case libm_pow rt (Finite \<bar>a\<bar>) iw of
                  None \<Rightarrow> Inl OverflowError
                | Some ix \<Rightarrow> Inr (PyFloat (if negate_result then float_neg ix else ix)))
        | _ \<Rightarrow> Inr (PyFloat NaN)))"

text \<open>
  \<^verbatim>\<open>long_pow\<close>: an exact power for an exponent that is not negative, and the
  \<^verbatim>\<open>float\<close> power of the converted operands for a negative one.
\<close>

definition long_pow :: "runtime \<Rightarrow> int \<Rightarrow> int \<Rightarrow> exn + pyval" where
  "long_pow rt i j =
     (if j < 0 then
        (case float_of_int i of
          Inl e \<Rightarrow> Inl e
        | Inr x \<Rightarrow> (case float_of_int j of Inl e \<Rightarrow> Inl e | Inr y \<Rightarrow> float_pow rt x y))
      else Inr (PyInt (i ^ nat j)))"

definition operator_pow :: "runtime \<Rightarrow> pyval \<Rightarrow> pyval \<Rightarrow> exn + pyval" where
  "operator_pow rt = binary_op rt Pow_op (long_pow rt) (float_pow rt)"

text \<open>Negation never fails; the negative of a \<^verbatim>\<open>bool\<close> is an \<^verbatim>\<open>int\<close>.\<close>

fun operator_neg :: "pyval \<Rightarrow> exn + pyval" where
  "operator_neg (PyInt i) = Inr (PyInt (- i))"
| "operator_neg (PyBool b) = Inr (PyInt (- (if b then 1 else 0)))"
| "operator_neg (PyFloat x) = Inr (PyFloat (float_neg x))"
| "operator_neg (PyComplex re im) = Inr (PyComplex (float_neg re) (float_neg im))"

subsection \<open>The table of operators and the tree walk\<close>

text \<open>
  \<^verbatim>\<open>_ALLOWED_OPERATORS\<close> maps six operator classes to functions of module
  \<^verbatim>\<open>operator\<close>. A \<^verbatim>\<open>BinOp\<close> node holds an \<^verbatim>\<open>ast.operator\<close> and a \<^verbatim>\<open>UnaryOp\<close> node an
  \<^verbatim>\<open>ast.unaryop\<close>, so the dictionary is read here as its five binary entries and its one
  unary entry.
\<close>

definition ALLOWED_OPERATORS :: "runtime \<Rightarrow> operator \<rightharpoonup> (pyval \<Rightarrow> pyval \<Rightarrow> exn + pyval)" where
  "ALLOWED_OPERATORS rt =
     [Add \<mapsto> operator_add rt,
      Sub \<mapsto> operator_sub rt,
      Mult \<mapsto> operator_mul rt,
      Div \<mapsto> operator_truediv rt,
      Pow_op \<mapsto> operator_pow rt]"

definition ALLOWED_UNARY_OPERATORS :: "unaryop \<rightharpoonup> (pyval \<Rightarrow> exn + pyval)" where
  "ALLOWED_UNARY_OPERATORS = [USub \<mapsto> operator_neg]"

text \<open>
  \<^verbatim>\<open>isinstance(node.value, (int, float))\<close> and the value then returned: \<^verbatim>\<open>bool\<close> is a
  subclass of \<^verbatim>\<open>int\<close>, every other constant fails the test.
\<close>

fun int_or_float :: "constant_value \<Rightarrow> pyval option" where
  "int_or_float (Int_value i) = Some (PyInt i)"
| "int_or_float (Bool_value b) = Some (PyBool b)"
| "int_or_float (Float_value x) = Some (PyFloat x)"
| "int_or_float _ = None"

text \<open>
  The nested function \<^verbatim>\<open>_eval\<close>. It reads the dictionary \<^verbatim>\<open>variables\<close> of the enclosing
  call. The cases are in the order of the source: the operator of a \<^verbatim>\<open>BinOp\<close> is looked
  up before an operand is evaluated, the left operand is evaluated before the right one,
  and an exception of an operand leaves the call at once.
\<close>

fun eval_node :: "runtime \<Rightarrow> env \<Rightarrow> expr \<Rightarrow> exn + pyval" where
  "eval_node rt variables (BinOp left op right) =
     (case ALLOWED_OPERATORS rt op of
        Some f \<Rightarrow>
          (case eval_node rt variables left of
            Inl e \<Rightarrow> Inl e
          | Inr l \<Rightarrow>
            (case eval_node rt variables right of
              Inl e \<Rightarrow> Inl e
            | Inr r \<Rightarrow> f l r))
      | None \<Rightarrow> Inl (ValueError (Operator_not_allowed op)))"
| "eval_node rt variables (UnaryOp op operand) =
     (case ALLOWED_UNARY_OPERATORS op of
        Some f \<Rightarrow>
          (case eval_node rt variables operand of
            Inl e \<Rightarrow> Inl e
          | Inr v \<Rightarrow> f v)
      | None \<Rightarrow> Inl (ValueError (Unary_operator_not_allowed op)))"
| "eval_node rt variables (Name ident) =
     (case variables ident of
        Some v \<Rightarrow> Inr v
      | None \<Rightarrow> Inl (ValueError (Undefined_variable ident)))"
| "eval_node rt variables (Constant c) =
     (case int_or_float c of
        Some v \<Rightarrow> Inr v
      | None \<Rightarrow> Inl (ValueError (Unsupported_element (Constant c))))"
| "eval_node rt variables node = Inl (ValueError (Unsupported_element node))"

subsection \<open>The tokenizer\<close>

text \<open>
  \<^verbatim>\<open>ast.parse\<close> belongs to the Python runtime. It is modelled for a fragment of the
  language that holds every input the calculator is specified on: decimal integers,
  decimal floating-point literals with an optional exponent, identifiers, the constants
  \<^verbatim>\<open>True\<close>, \<^verbatim>\<open>False\<close> and \<^verbatim>\<open>None\<close>, plain quoted strings, the binary and unary
  arithmetic and bitwise operators, parentheses, tuples, list displays and calls with
  positional arguments. On an input of the fragment the model returns the tree that
  CPython (3.8 and later) builds or \<open>SyntaxError\<close> where CPython raises it; elsewhere
  it returns \<open>Outside_fragment\<close>.
\<close>

datatype token = NUMBER constant_value | NAME string | STRING string | OP string | ENDMARKER

definition is_digit :: "char \<Rightarrow> bool" where
  "is_digit c = (48 \<le> (of_char c :: nat) \<and> (of_char c :: nat) \<le> 57)"

definition is_name_start :: "char \<Rightarrow> bool" where
  "is_name_start c =
     (let n = (of_char c :: nat) in (65 \<le> n \<and> n \<le> 90) \<or> (97 \<le> n \<and> n \<le> 122) \<or> n = 95)"

definition is_name_char :: "char \<Rightarrow> bool" where
  "is_name_char c = (is_name_start c \<or> is_digit c)"

text \<open>Printable ASCII, the tabulator and the line feed.\<close>

definition modelled_char :: "char \<Rightarrow> bool" where
  "modelled_char c =
     (let n = (of_char c :: nat) in (32 \<le> n \<and> n \<le> 126) \<or> n = 9 \<or> n = 10)"

definition is_blank :: "char \<Rightarrow> bool" where
  "is_blank c = (c = CHR '' '' \<or> c = CHR 0x09)"

definition newline :: char where
  "newline = CHR 0x0A"

definition reserved_words :: "string list" where
  "reserved_words =
     [''and'', ''as'', ''assert'', ''async'', ''await'', ''break'', ''class'', ''continue'',
      ''def'', ''del'', ''elif'', ''else'', ''except'', ''finally'', ''for'', ''from'',
      ''global'', ''if'', ''import'', ''in'', ''is'', ''lambda'', ''nonlocal'', ''not'', ''or'',
      ''pass'', ''raise'', ''return'', ''try'', ''while'', ''with'', ''yield'']"

definition digit_value :: "char \<Rightarrow> nat" where
  "digit_value c = of_char c - 48"

definition nat_of_digits :: "string \<Rightarrow> nat" where
  "nat_of_digits ds = foldl (\<lambda>n c. 10 * n + digit_value c) 0 ds"

text \<open>
  The blank lines and comment lines before the expression are skipped; the first line
  with a token has to start in the first column (\<^verbatim>\<open>IndentationError\<close>, a subclass of
  \<^verbatim>\<open>SyntaxError\<close>, otherwise). The flags say whether the line read so far is indented
  and whether a comment is being read.
\<close>

fun skip_blank_lines :: "bool \<Rightarrow> bool \<Rightarrow> string \<Rightarrow> exn + string" where
  "skip_blank_lines indented in_comment [] = Inr []"
| "skip_blank_lines indented True (c # cs) =
     (if c = newline then skip_blank_lines False False cs
      else skip_blank_lines indented True cs)"
| "skip_blank_lines indented False (c # cs) =
     (if c = newline then skip_blank_lines False False cs
      else if is_blank c then skip_blank_lines True False cs
      else if c = CHR ''#'' then skip_blank_lines indented True cs
      else if indented then Inl SyntaxError
      else Inr (c # cs))"

text \<open>After the line of the expression only blank lines and comments may follow.\<close>

fun only_blank_lines :: "bool \<Rightarrow> string \<Rightarrow> bool" where
  "only_blank_lines in_comment [] = True"
| "only_blank_lines True (c # cs) = only_blank_lines (c \<noteq> newline) cs"
| "only_blank_lines False (c # cs) =
     (if c = CHR ''#'' then only_blank_lines True cs
      else (c = newline \<or> is_blank c) \<and> only_blank_lines False cs)"

text \<open>
  An exponent \<^verbatim>\<open>e\<close> or \<^verbatim>\<open>E\<close>, an optional sign and digits, at the start of the
  string; without digits there is no exponent.
\<close>

definition scan_exponent :: "string \<Rightarrow> int option \<times> string" where
  "scan_exponent r =
     (if r \<noteq> [] \<and> (hd r = CHR ''e'' \<or> hd r = CHR ''E'') then
        let r1 = tl r;
            signed = (r1 \<noteq> [] \<and> (hd r1 = CHR ''+'' \<or> hd r1 = CHR ''-''));
            r2 = (if signed then tl r1 else r1);
            ds = takeWhile is_digit r2
        in if ds = [] then (None, r)
           else (Some (if signed \<and> hd r1 = CHR ''-'' then - int (nat_of_digits ds)
                       else int (nat_of_digits ds)),
                 dropWhile is_digit r2)
      else (None, r))"

text \<open>
  A numeric literal at the start of the string (its first character is a digit, or a
  point before a digit). A literal with a point or an exponent is a \<^verbatim>\<open>float\<close>, the
  double nearest to the decimal number. Otherwise it is a decimal \<^verbatim>\<open>int\<close>: leading
  zeros before a non-zero number are a syntax error, and so are more digits than the
  limit of the runtime (which is consulted past 640 digits only). Underscores, other bases and the imaginary suffix are outside
  the fragment, as is any letter that follows the literal directly.
\<close>

definition scan_number :: "runtime \<Rightarrow> string \<Rightarrow> (exn + constant_value) \<times> string" where
  "scan_number rt cs =
     (let ip = takeWhile is_digit cs;
          r1 = dropWhile is_digit cs;
          has_point = (r1 \<noteq> [] \<and> hd r1 = CHR ''.'');
          fp = (if has_point then takeWhile is_digit (tl r1) else []);
          r2 = (if has_point then dropWhile is_digit (tl r1) else r1);
          ex = fst (scan_exponent r2);
          r3 = snd (scan_exponent r2)
      in if r3 \<noteq> [] \<and> is_name_char (hd r3) then (Inl Outside_fragment, r3)
         else if has_point \<or> ex \<noteq> None then
           (Inr (Float_value (round64 (of_nat (nat_of_digits (ip @ fp))
               * 10 powi ((case ex of Some x \<Rightarrow> x | None \<Rightarrow> 0) - int (length fp))))), r3)
         else if 1 < length ip \<and> hd ip = CHR ''0'' \<and> nat_of_digits ip \<noteq> 0 then (Inl SyntaxError, r3)
         else if 640 < length ip \<and> 0 < int_max_str_digits rt \<and> int_max_str_digits rt < length ip
           then (Inl SyntaxError, r3)
         else (Inr (Int_value (int (nat_of_digits ip))), r3))"

text \<open>
  A string literal after its opening quote: the characters up to the same quote on the
  same line. A backslash and a triple quote are outside the fragment.
\<close>

definition scan_string :: "char \<Rightarrow> string \<Rightarrow> (exn + string) \<times> string" where
  "scan_string q cs =
     (let inside = (\<lambda>x. x \<noteq> q \<and> x \<noteq> newline \<and> x \<noteq> CHR 0x5C);
          body = takeWhile inside cs;
          r = dropWhile inside cs
      in if r = [] \<or> hd r = newline then (Inl SyntaxError, [])
         else if hd r \<noteq> q then (Inl Outside_fragment, [])
         else if body = [] \<and> tl r \<noteq> [] \<and> hd (tl r) = q then (Inl Outside_fragment, [])
         else (Inr body, tl r))"

definition push :: "token \<Rightarrow> exn + token list \<Rightarrow> exn + token list" where
  "push t r = (case r of Inl e \<Rightarrow> Inl e | Inr ts \<Rightarrow> Inr (t # ts))"

text \<open>
  The tokens of the logical line of the expression. \<open>depth\<close> counts the open brackets:
  inside brackets a line feed is white space, outside it ends the line.
\<close>

function tokenize :: "runtime \<Rightarrow> nat \<Rightarrow> string \<Rightarrow> exn + token list" where
  "tokenize rt depth [] = Inr []"
| "tokenize rt depth (c # cs) =
     (if is_blank c then tokenize rt depth cs
      else if c = CHR ''#'' then tokenize rt depth (dropWhile (\<lambda>x. x \<noteq> newline) cs)
      else if c = newline then
        (if 0 < depth then tokenize rt depth cs
         else if only_blank_lines False cs then Inr [] else Inl SyntaxError)
      else if is_digit c \<or> (c = CHR ''.'' \<and> cs \<noteq> [] \<and> is_digit (hd cs)) then
        (case fst (scan_number rt (c # cs)) of
          Inl e \<Rightarrow> Inl e
        | Inr v \<Rightarrow> push (NUMBER v) (tokenize rt depth (snd (scan_number rt (c # cs)))))
      else if is_name_start c then
        (let ident = c # takeWhile is_name_char cs; r = dropWhile is_name_char cs
         in if ident \<in> set reserved_words \<or> (r \<noteq> [] \<and> (hd r = CHR 0x27 \<or> hd r = CHR 0x22))
            then Inl Outside_fragment
            else push (NAME ident) (tokenize rt depth (dropWhile is_name_char cs)))
      else if c = CHR 0x27 \<or> c = CHR 0x22 then
        (case fst (scan_string c cs) of
          Inl e \<Rightarrow> Inl e
        | Inr body \<Rightarrow> push (STRING body) (tokenize rt depth (snd (scan_string c cs))))
      else if cs \<noteq> [] \<and> [c, hd cs] \<in> set [''**'', ''//'', ''<<'', ''>>'']
        then push (OP [c, hd cs]) (tokenize rt depth (tl cs))
      else if c = CHR ''('' \<or> c = CHR ''[''
        then push (OP [c]) (tokenize rt (Suc depth) cs)
      else if c = CHR '')'' \<or> c = CHR '']''
        then push (OP [c]) (tokenize rt (depth - 1) cs)
      else if c \<in> set ''+-*/%@&|^~,;''
        then push (OP [c]) (tokenize rt depth cs)
      else Inl Outside_fragment)"
  by pat_completeness auto
termination
proof -
  have exponent_rest: "length (snd (scan_exponent r)) \<le> length r" for r
  proof -
    have "length (dropWhile is_digit (tl (tl r))) \<le> length r"
      using length_dropWhile_le [of is_digit "tl (tl r)"] by simp
    moreover have "length (dropWhile is_digit (tl r)) \<le> length r"
      using length_dropWhile_le [of is_digit "tl r"] by simp
    ultimately show ?thesis
      by (simp add: scan_exponent_def Let_def)
  qed
  have number_rest: "length (snd (scan_number rt (c # cs))) \<le> length cs"
    if first: "is_digit c \<or> c = CHR ''.''" for rt c cs
  proof -
    let ?r1 = "dropWhile is_digit (c # cs)"
    have r1: "length ?r1 \<le> Suc (length cs)"
      using length_dropWhile_le [of is_digit "c # cs"] by simp
    have point: "length (dropWhile is_digit (tl ?r1)) \<le> length cs" if "?r1 \<noteq> []"
    proof -
      have "length (tl ?r1) \<le> length cs"
        using r1 that by (cases ?r1) auto
      then show ?thesis
        using length_dropWhile_le [of is_digit "tl ?r1"] by linarith
    qed
    have digit: "length ?r1 \<le> length cs" if "is_digit c"
      using that length_dropWhile_le [of is_digit cs] by simp
    have "length (snd (scan_number rt (c # cs)))
        = length (snd (scan_exponent
            (if ?r1 \<noteq> [] \<and> hd ?r1 = CHR ''.'' then dropWhile is_digit (tl ?r1) else ?r1)))"
      by (auto simp add: scan_number_def Let_def)
    also have "\<dots> \<le> length (if ?r1 \<noteq> [] \<and> hd ?r1 = CHR ''.''
        then dropWhile is_digit (tl ?r1) else ?r1)"
      by (rule exponent_rest)
    also have "\<dots> \<le> length cs"
    proof (cases "is_digit c")
      case True
      then show ?thesis using point digit by auto
    next
      case False
      with first have c: "c = CHR ''.''" by simp
      from False have "?r1 = c # cs" by simp
      with c have cond: "?r1 \<noteq> [] \<and> hd ?r1 = CHR ''.''" by simp
      show ?thesis
        unfolding if_P [OF cond] using point cond by blast
    qed
    finally show ?thesis .
  qed
  have string_rest: "length (snd (scan_string q cs)) \<le> length cs" for q cs
  proof -
    let ?inside = "\<lambda>x. x \<noteq> q \<and> x \<noteq> newline \<and> x \<noteq> CHR 0x5C"
    have "length (tl (dropWhile ?inside cs)) \<le> length cs"
      using length_dropWhile_le [of ?inside cs] by simp
    then show ?thesis
      by (simp add: scan_string_def Let_def)
  qed
  show ?thesis
  proof (relation "measure (\<lambda>(rt, depth, s). length s)", goal_cases)
    case 1
    show ?case by simp
  next
    case (2 rt depth c cs)
    show ?case by simp
  next
    case (3 rt depth c cs)
    show ?case
      using length_dropWhile_le [of "\<lambda>x. x \<noteq> newline" cs] by simp
  next
    case (4 rt depth c cs)
    show ?case by simp
  next
    case (5 rt depth c cs v)
    then have "is_digit c \<or> c = CHR ''.''" by blast
    from number_rest [OF this, of rt cs] show ?case by simp
  next
    case (6 rt depth c cs ident r)
    show ?case
      using length_dropWhile_le [of is_name_char cs] by simp
  next
    case (7 rt depth c cs body)
    show ?case
      using string_rest [of c cs] by simp
  next
    case (8 rt depth c cs)
    then show ?case by (cases cs) auto
  qed simp_all
qed

declare tokenize.simps [simp del]

subsection \<open>The grammar\<close>

text \<open>
  The binary operators with their levels of precedence, from \<^verbatim>\<open>|\<close> (loosest) to the
  multiplicative operators, and the unary operators. All binary operators of these
  levels associate to the left.
\<close>

definition binary_operator :: "string \<Rightarrow> (nat \<times> operator) option" where
  "binary_operator s =
     map_of
       [(''|'', (1, BitOr)), (''^'', (2, BitXor)), (''&'', (3, BitAnd)),
        (''<<'', (4, LShift)), (''>>'', (4, RShift)),
        (''+'', (5, Add)), (''-'', (5, Sub)),
        (''*'', (6, Mult)), (''/'', (6, Div)), (''//'', (6, FloorDiv)), (''%'', (6, Mod)),
        (''@'', (6, MatMult))] s"

definition unary_operator :: "string \<Rightarrow> unaryop option" where
  "unary_operator s = map_of [(''+'', UAdd), (''-'', USub), (''~'', Invert)] s"

text \<open>
  Recursive descent along the rules of the grammar of Python:
  \<^verbatim>\<open>factor: ('+' | '-' | '~') factor | power\<close>,
  \<^verbatim>\<open>power: primary ['**' factor]\<close>, \<^verbatim>\<open>primary: atom ('(' [arguments] ')')*\<close>, and
  the binary levels above \<^verbatim>\<open>factor\<close> by precedence climbing. The parser is one function
  over the goals of the grammar; it returns the tree and the tokens left. Its first
  argument bounds the depth of the recursion; \<open>ast_parse\<close> starts it high enough for
  the number of tokens, and a parse that runs out of it is reported as outside the
  fragment.
\<close>

datatype bracket = Group | Display | Arguments expr | Toplevel

fun closing :: "bracket \<Rightarrow> token" where
  "closing Group = OP '')''"
| "closing Display = OP '']''"
| "closing (Arguments f) = OP '')''"
| "closing Toplevel = ENDMARKER"

text \<open>
  The node for a finished sequence of items: a parenthesised expression is the
  expression itself unless a comma makes it a tuple, and so is the whole input.
\<close>

fun enclose :: "bracket \<Rightarrow> expr list \<Rightarrow> bool \<Rightarrow> expr" where
  "enclose Display items comma = List items"
| "enclose (Arguments f) items comma = Call f items"
| "enclose b items comma = (if comma \<or> items = [] then Tuple items else hd items)"

datatype goal =
  Expression nat
  | Operators nat expr
  | Factor
  | Power
  | Trailers expr
  | Atom
  | Items bracket "expr list" bool

definition op_head :: "token list \<Rightarrow> string option" where
  "op_head ts = (case ts of OP s # rest \<Rightarrow> Some s | _ \<Rightarrow> None)"

definition binary_head :: "token list \<Rightarrow> (nat \<times> operator) option" where
  "binary_head ts = (case op_head ts of Some s \<Rightarrow> binary_operator s | None \<Rightarrow> None)"

definition unary_head :: "token list \<Rightarrow> unaryop option" where
  "unary_head ts = (case op_head ts of Some s \<Rightarrow> unary_operator s | None \<Rightarrow> None)"

text \<open>
  An atom that is a single token. Two string literals in a row (a concatenation) and a
  starred expression are outside the fragment.
\<close>

definition simple_atom :: "token list \<Rightarrow> exn + (expr \<times> token list)" where
  "simple_atom ts =
     (case ts of
        NUMBER c # rest \<Rightarrow> Inr (Constant c, rest)
      | NAME s # rest \<Rightarrow>
          Inr (if s = ''True'' then Constant (Bool_value True)
               else if s = ''False'' then Constant (Bool_value False)
               else if s = ''None'' then Constant None_value
               else Name s, rest)
      | STRING s # rest \<Rightarrow>
          (case rest of
             STRING s' # rest' \<Rightarrow> Inl Outside_fragment
           | _ \<Rightarrow> Inr (Constant (Str_value s), rest))
      | OP s # rest \<Rightarrow> if s = ''*'' \<or> s = ''**'' then Inl Outside_fragment else Inl SyntaxError
      | _ \<Rightarrow> Inl SyntaxError)"

fun parse :: "nat \<Rightarrow> goal \<Rightarrow> token list \<Rightarrow> exn + (expr \<times> token list)" where
  "parse 0 g ts = Inl Outside_fragment"
| "parse (Suc n) (Expression lvl) ts =
     (case parse n Factor ts of
        Inl e \<Rightarrow> Inl e
      | Inr (lhs, rest) \<Rightarrow> parse n (Operators lvl lhs) rest)"
| "parse (Suc n) (Operators lvl lhs) ts =
     (case binary_head ts of
        Some (l, op) \<Rightarrow>
          if lvl \<le> l then
            (case parse n (Expression (Suc l)) (tl ts) of
               Inl e \<Rightarrow> Inl e
             | Inr (rhs, rest) \<Rightarrow> parse n (Operators lvl (BinOp lhs op rhs)) rest)
          else Inr (lhs, ts)
      | None \<Rightarrow> Inr (lhs, ts))"
| "parse (Suc n) Factor ts =
     (case unary_head ts of
        Some u \<Rightarrow>
          (case parse n Factor (tl ts) of
             Inl e \<Rightarrow> Inl e
           | Inr (operand, rest) \<Rightarrow> Inr (UnaryOp u operand, rest))
      | None \<Rightarrow> parse n Power ts)"
| "parse (Suc n) Power ts =
     (case parse n Atom ts of
        Inl e \<Rightarrow> Inl e
      | Inr (a, r) \<Rightarrow>
        (case parse n (Trailers a) r of
           Inl e \<Rightarrow> Inl e
         | Inr (base, rest) \<Rightarrow>
             if op_head rest = Some ''**'' then
               (case parse n Factor (tl rest) of
                  Inl e \<Rightarrow> Inl e
                | Inr (exponent, rest') \<Rightarrow> Inr (BinOp base Pow_op exponent, rest'))
             else Inr (base, rest)))"
| "parse (Suc n) (Trailers e) ts =
     (if op_head ts = Some ''('' then
        (case parse n (Items (Arguments e) [] False) (tl ts) of
           Inl x \<Rightarrow> Inl x
         | Inr (call, rest) \<Rightarrow> parse n (Trailers call) rest)
      else if op_head ts = Some ''['' then Inl Outside_fragment
      else Inr (e, ts))"
| "parse (Suc n) Atom ts =
     (if op_head ts = Some ''('' then parse n (Items Group [] False) (tl ts)
      else if op_head ts = Some ''['' then parse n (Items Display [] False) (tl ts)
      else simple_atom ts)"
| "parse (Suc n) (Items b acc comma) ts =
     (if ts = [] then Inl SyntaxError
      else if hd ts = closing b then Inr (enclose b (rev acc) comma, tl ts)
      else
        (case parse n (Expression 1) ts of
           Inl e \<Rightarrow> Inl e
         | Inr (item, r) \<Rightarrow>
             if r = [] then Inl SyntaxError
             else if hd r = closing b then Inr (enclose b (rev (item # acc)) comma, tl r)
             else if hd r = OP '','' then parse n (Items b (item # acc) True) (tl r)
             else Inl SyntaxError))"

text \<open>
  \<^verbatim>\<open>ast.parse(source, mode="eval").body\<close>: the rule
  \<^verbatim>\<open>eval: expressions NEWLINE* ENDMARKER\<close>, where several expressions separated by commas
  are a tuple. An input without a token is a syntax error.
\<close>

definition ast_parse :: "runtime \<Rightarrow> string \<Rightarrow> exn + expr" where
  "ast_parse rt source =
     (if \<not> list_all modelled_char source then Inl Outside_fragment
      else
        (case skip_blank_lines False False source of
           Inl e \<Rightarrow> Inl e
         | Inr line \<Rightarrow>
           (case tokenize rt 0 line of
              Inl e \<Rightarrow> Inl e
            | Inr ts \<Rightarrow>
                if ts = [] then Inl SyntaxError
                else
                  (case parse (6 * length ts + 6) (Items Toplevel [] False) (ts @ [ENDMARKER]) of
                     Inl e \<Rightarrow> Inl e
                   | Inr (tree, rest) \<Rightarrow> Inr tree))))"

subsection \<open>\<^verbatim>\<open>safe_eval\<close>\<close>

text \<open>
  The call has two effects to account for: the record it emits through the module's
  logger (level \<^verbatim>\<open>DEBUG\<close>, which the logger passes), and whatever it does to the
  dictionary object the caller hands in. Both are passed in and returned: the result of
  the model is the value or exception of the call, the dictionary of the caller after
  the call, and the log after the call. \<^verbatim>\<open>variables or {}\<close> replaces a missing or
  empty argument by a fresh empty dictionary; the function has no statement that stores
  into a dictionary.
\<close>

type_synonym log = "(string \<times> env) list"

definition logger_debug :: "string \<Rightarrow> env \<Rightarrow> log \<Rightarrow> log" where
  "logger_debug expression variables l = l @ [(expression, variables)]"

definition safe_eval ::
  "runtime \<Rightarrow> string \<Rightarrow> env option \<Rightarrow> log \<Rightarrow> (exn + pyval) \<times> env option \<times> log" where
  "safe_eval rt expression variables l =
     (let vars = (case variables of None \<Rightarrow> Map.empty | Some d \<Rightarrow> d);
          l' = logger_debug expression vars l
      in case ast_parse rt expression of
           Inl e \<Rightarrow> (Inl e, variables, l')
         | Inr tree \<Rightarrow> (eval_node rt vars tree, variables, l'))"

subsection \<open>Equality of numbers\<close>

text \<open>
  Python's \<^verbatim>\<open>==\<close> on numbers compares values across the numeric types, exactly:
  \<^verbatim>\<open>True == 1\<close>, \<^verbatim>\<open>5 == 5.0\<close>, \<^verbatim>\<open>-0.0 == 0.0\<close>, and a NaN equals nothing.
\<close>

fun real_part :: "pyval \<Rightarrow> pyfloat" where
  "real_part (PyInt i) = Finite (of_int i)"
| "real_part (PyBool b) = Finite (if b then 1 else 0)"
| "real_part (PyFloat x) = x"
| "real_part (PyComplex re im) = re"

fun imag_part :: "pyval \<Rightarrow> pyfloat" where
  "imag_part (PyComplex re im) = im"
| "imag_part _ = Finite 0"

definition float_eq :: "pyfloat \<Rightarrow> pyfloat \<Rightarrow> bool" where
  "float_eq x y = (x \<noteq> NaN \<and> y \<noteq> NaN \<and> (x = y \<or> (is_zero x \<and> is_zero y)))"

definition py_eq :: "pyval \<Rightarrow> pyval \<Rightarrow> bool" where
  "py_eq a b = (float_eq (real_part a) (real_part b) \<and> float_eq (imag_part a) (imag_part b))"

subsection \<open>The whitelist and the kinds of failure\<close>

text \<open>
  The whitelist of \<^verbatim>\<open>_eval\<close>, read off its tests: a tree all of whose nodes are a
  \<^verbatim>\<open>BinOp\<close> with one of the five binary operators of the table, a \<^verbatim>\<open>UnaryOp\<close> with
  the negation, a \<^verbatim>\<open>Name\<close>, or a \<^verbatim>\<open>Constant\<close> that holds an \<^verbatim>\<open>int\<close>, a \<^verbatim>\<open>bool\<close> or
  a \<^verbatim>\<open>float\<close>.
\<close>

fun permitted :: "expr \<Rightarrow> bool" where
  "permitted (BinOp left op right) =
     (op \<in> set [Add, Sub, Mult, Div, Pow_op] \<and> permitted left \<and> permitted right)"
| "permitted (UnaryOp op operand) = (op = USub \<and> permitted operand)"
| "permitted (Name ident) = True"
| "permitted (Constant c) =
     (case c of Int_value i \<Rightarrow> True | Bool_value b \<Rightarrow> True | Float_value x \<Rightarrow> True | _ \<Rightarrow> False)"
| "permitted node = False"

text \<open>
  The two kinds of failure that the specification assigns to disallowed syntax: a
  syntax error, and an unsupported operation (the three messages of \<^verbatim>\<open>_eval\<close> about an
  operator or a node that is not allowed).
\<close>

fun syntax_or_unsupported :: "exn + pyval \<Rightarrow> bool" where
  "syntax_or_unsupported (Inl SyntaxError) = True"
| "syntax_or_unsupported (Inl (ValueError (Operator_not_allowed op))) = True"
| "syntax_or_unsupported (Inl (ValueError (Unary_operator_not_allowed op))) = True"
| "syntax_or_unsupported (Inl (ValueError (Unsupported_element node))) = True"
| "syntax_or_unsupported r = False"

subsection \<open>\<^verbatim>\<open>str\<close> of a number\<close>













section \<open>Properties\<close>

subsection \<open>Precedence and associativity\<close>

lemma parse_sum_of_product:
  "ast_parse rt ''2+3*4'' =
     Inr (BinOp (Constant (Int_value 2)) Add
           (BinOp (Constant (Int_value 3)) Mult (Constant (Int_value 4))))"
  by code_simp

lemma parse_product_plus:
  "ast_parse rt ''2*3+4'' =
     Inr (BinOp (BinOp (Constant (Int_value 2)) Mult (Constant (Int_value 3))) Add
           (Constant (Int_value 4)))"
  by code_simp

lemma parse_difference_chain:
  "ast_parse rt ''10-3-2'' =
     Inr (BinOp (BinOp (Constant (Int_value 10)) Sub (Constant (Int_value 3))) Sub
           (Constant (Int_value 2)))"
  by code_simp

lemma eval_sum_of_product: "fst (safe_eval rt ''2+3*4'' None l) = Inr (PyInt 14)"
  by code_simp

lemma eval_product_plus: "fst (safe_eval rt ''2*3+4'' None l) = Inr (PyInt 10)"
  by code_simp

lemma eval_difference_chain: "fst (safe_eval rt ''10-3-2'' None l) = Inr (PyInt 5)"
  by code_simp

text \<open>
  C5. Multiplication binds tighter than addition, and subtraction associates to the
  left: \<^verbatim>\<open>safe_eval("2+3*4")\<close> is 14, \<^verbatim>\<open>safe_eval("2*3+4")\<close> is 10 and
  \<^verbatim>\<open>safe_eval("10-3-2")\<close> is 5; the trees are \<open>2 + (3 * 4)\<close>, \<open>(2 * 3) + 4\<close> and
  \<open>(10 - 3) - 2\<close>.
\<close>

theorem precedence_and_left_associativity:
  "fst (safe_eval rt ''2+3*4'' None l) = Inr (PyInt 14)
   \<and> fst (safe_eval rt ''2*3+4'' None l) = Inr (PyInt 10)
   \<and> fst (safe_eval rt ''10-3-2'' None l) = Inr (PyInt 5)
   \<and> ast_parse rt ''2+3*4'' =
       Inr (BinOp (Constant (Int_value 2)) Add
             (BinOp (Constant (Int_value 3)) Mult (Constant (Int_value 4))))
   \<and> ast_parse rt ''2*3+4'' =
       Inr (BinOp (BinOp (Constant (Int_value 2)) Mult (Constant (Int_value 3))) Add
             (Constant (Int_value 4)))
   \<and> ast_parse rt ''10-3-2'' =
       Inr (BinOp (BinOp (Constant (Int_value 10)) Sub (Constant (Int_value 3))) Sub
             (Constant (Int_value 2)))"
  using eval_sum_of_product eval_product_plus eval_difference_chain
    parse_sum_of_product parse_product_plus parse_difference_chain
  by blast

subsection \<open>Boolean constants\<close>

lemma eval_True: "fst (safe_eval rt ''True'' None l) = Inr (PyBool True)"
  by code_simp

lemma eval_False: "fst (safe_eval rt ''False'' None l) = Inr (PyBool False)"
  by code_simp

lemma True_is_one: "py_eq (PyBool True) (PyInt 1)"
  by (simp add: py_eq_def float_eq_def)

lemma False_is_zero: "py_eq (PyBool False) (PyInt 0)"
  by (simp add: py_eq_def float_eq_def)

text \<open>
  C10. \<^verbatim>\<open>True\<close> and \<^verbatim>\<open>False\<close> are accepted as numeric constants: the parser builds a
  \<^verbatim>\<open>Constant\<close> node for them, a \<^verbatim>\<open>bool\<close> passes the test
  \<^verbatim>\<open>isinstance(node.value, (int, float))\<close>, and the call returns the constant, which
  equals 1 and 0.
\<close>

theorem boolean_constants_are_numbers:
  "fst (safe_eval rt ''True'' None l) = Inr (PyBool True)
   \<and> fst (safe_eval rt ''False'' None l) = Inr (PyBool False)
   \<and> py_eq (PyBool True) (PyInt 1)
   \<and> py_eq (PyBool False) (PyInt 0)
   \<and> int_or_float (Bool_value b) = Some (PyBool b)
   \<and> to_int (PyBool True) = Some 1
   \<and> to_int (PyBool False) = Some 0"
  using eval_True eval_False True_is_one False_is_zero by simp

subsection \<open>The power operator\<close>

lemma parse_power_chain:
  "ast_parse rt ''2**3**2'' =
     Inr (BinOp (Constant (Int_value 2)) Pow_op
           (BinOp (Constant (Int_value 3)) Pow_op (Constant (Int_value 2))))"
  by code_simp

lemma eval_power_chain: "fst (safe_eval rt ''2**3**2'' None l) = Inr (PyInt 512)"
  by code_simp

lemma parse_caret_chain:
  "ast_parse rt ''2^3^2'' =
     Inr (BinOp (BinOp (Constant (Int_value 2)) BitXor (Constant (Int_value 3))) BitXor
           (Constant (Int_value 2)))"
  by code_simp

lemma eval_caret_chain:
  "fst (safe_eval rt ''2^3^2'' None l) = Inl (ValueError (Operator_not_allowed BitXor))"
  by code_simp

lemma BitXor_not_allowed:
  "eval_node rt variables (BinOp left BitXor right) = Inl (ValueError (Operator_not_allowed BitXor))"
  by (simp add: ALLOWED_OPERATORS_def)

text \<open>
  The claim C3 as stated fails: the caret is Python's bitwise exclusive or, which the
  table \<^verbatim>\<open>_ALLOWED_OPERATORS\<close> does not hold, so \<^verbatim>\<open>safe_eval("2^3^2")\<close> raises
  \<^verbatim>\<open>ValueError\<close> (operator not allowed) and returns no 512.
\<close>

theorem caret_is_rejected_counterexample:
  "\<forall>rt l. fst (safe_eval rt ''2^3^2'' None l) = Inl (ValueError (Operator_not_allowed BitXor))
     \<and> fst (safe_eval rt ''2^3^2'' None l) \<noteq> Inr (PyInt 512)"
  using eval_caret_chain by simp

text \<open>
  C3, amended. The power operator of the calculator is written \<^verbatim>\<open>**\<close>; it
  associates to the right, \<^verbatim>\<open>safe_eval("2**3**2")\<close> is \<open>2 ^ (3 ^ 2) = 512\<close>. The
  caret parses as \<^verbatim>\<open>BitXor\<close>, associates to the left, and every \<^verbatim>\<open>BinOp\<close> node that
  carries it is rejected with \<^verbatim>\<open>ValueError\<close> before an operand is evaluated.
\<close>

theorem power_is_double_star_and_right_associative:
  "fst (safe_eval rt ''2**3**2'' None l) = Inr (PyInt 512)
   \<and> ast_parse rt ''2**3**2'' =
       Inr (BinOp (Constant (Int_value 2)) Pow_op
             (BinOp (Constant (Int_value 3)) Pow_op (Constant (Int_value 2))))
   \<and> ast_parse rt ''2^3^2'' =
       Inr (BinOp (BinOp (Constant (Int_value 2)) BitXor (Constant (Int_value 3))) BitXor
             (Constant (Int_value 2)))
   \<and> eval_node rt variables (BinOp left BitXor right) =
       Inl (ValueError (Operator_not_allowed BitXor))"
  using eval_power_chain parse_power_chain parse_caret_chain BitXor_not_allowed by blast

subsection \<open>Division by zero\<close>

lemma eval_one_by_zero: "fst (safe_eval rt ''1/0'' None l) = Inl ZeroDivisionError"
  by code_simp

text \<open>
  The claim C2 as stated fails: \<^verbatim>\<open>safe_eval("1/0")\<close> raises
  \<^verbatim>\<open>ZeroDivisionError\<close>; it does not return the positive infinity.
\<close>

theorem division_by_zero_counterexample:
  "\<forall>rt l. fst (safe_eval rt ''1/0'' None l) = Inl ZeroDivisionError
     \<and> fst (safe_eval rt ''1/0'' None l) \<noteq> Inr (PyFloat PosInf)"
  using eval_one_by_zero by simp

lemma round64_zero: "round64 0 = Finite 0"
  by (simp add: round64_def)

lemma float_of_int_zero: "float_of_int 0 = Inr (Finite 0)"
  by (simp add: float_of_int_def round64_zero)

lemma to_double_of_zero:
  assumes "\<not> is_complex b" and "py_eq b (PyInt 0)"
  shows "\<exists>y. to_double b = Inr y \<and> is_zero y"
proof (cases b)
  case (PyInt j)
  with assms have "j = 0" by (simp add: py_eq_def float_eq_def)
  with PyInt show ?thesis by (simp add: float_of_int_zero)
next
  case (PyBool c)
  with assms have "\<not> c" by (simp add: py_eq_def float_eq_def split: if_splits)
  with PyBool show ?thesis by (simp add: float_of_int_zero)
next
  case (PyFloat y)
  with assms have "is_zero y" by (auto simp add: py_eq_def float_eq_def)
  with PyFloat show ?thesis by simp
next
  case (PyComplex re im)
  with assms show ?thesis by simp
qed

lemma to_int_of_zero:
  assumes "py_eq b (PyInt 0)" and "to_int b = Some j"
  shows "j = 0"
  using assms by (cases b) (auto simp add: py_eq_def float_eq_def split: if_splits)

lemma truediv_by_zero:
  assumes "to_double a = Inr x" and "\<not> is_complex b" and "py_eq b (PyInt 0)"
  shows "operator_truediv rt a b = Inl ZeroDivisionError"
proof -
  from assms(1) have a: "\<not> is_complex a" by (cases a) auto
  from to_double_of_zero [OF assms(2,3)] obtain y where y: "to_double b = Inr y" "is_zero y"
    by blast
  show ?thesis
  proof (cases "to_int a")
    case None
    with a assms(1) y show ?thesis
      by (simp add: operator_truediv_def binary_op_def float_div_def \<open>\<not> is_complex b\<close>)
  next
    case (Some i)
    show ?thesis
    proof (cases "to_int b")
      case None
      with Some a assms(1) y show ?thesis
        by (simp add: operator_truediv_def binary_op_def float_div_def \<open>\<not> is_complex b\<close>)
    next
      case (Some j)
      with to_int_of_zero [OF assms(3)] have "j = 0" by simp
      with Some \<open>to_int a = Some i\<close> a show ?thesis
        by (simp add: operator_truediv_def binary_op_def long_true_divide_def \<open>\<not> is_complex b\<close>)
    qed
  qed
qed

text \<open>
  C2, amended. Division by zero is an error: when the operands of a division evaluate
  to real numbers (the dividend an \<^verbatim>\<open>int\<close> that fits a double, a \<^verbatim>\<open>bool\<close> or a
  \<^verbatim>\<open>float\<close>) and the divisor equals zero (\<^verbatim>\<open>0\<close>, \<^verbatim>\<open>False\<close>, \<^verbatim>\<open>0.0\<close> or
  \<^verbatim>\<open>-0.0\<close>), the evaluation raises \<^verbatim>\<open>ZeroDivisionError\<close> and returns neither an
  infinity nor a NaN; in particular \<^verbatim>\<open>safe_eval("1/0")\<close> raises it.
\<close>

theorem division_by_zero_raises:
  assumes "eval_node rt variables left = Inr a"
    and "eval_node rt variables right = Inr b"
    and "to_double a = Inr x"
    and "\<not> is_complex b"
    and "py_eq b (PyInt 0)"
  shows "eval_node rt variables (BinOp left Div right) = Inl ZeroDivisionError
    \<and> fst (safe_eval rt ''1/0'' None l) = Inl ZeroDivisionError"
  using assms truediv_by_zero [OF assms(3,4,5), of rt] eval_one_by_zero [of rt l]
  by (simp add: ALLOWED_OPERATORS_def)

theorem division_by_zero_raises_witness:
  "\<forall>rt. eval_node rt Map.empty (Constant (Float_value (Finite 1))) = Inr (PyFloat (Finite 1))
     \<and> eval_node rt Map.empty (Constant (Float_value NegZero)) = Inr (PyFloat NegZero)
     \<and> to_double (PyFloat (Finite 1)) = Inr (Finite 1)
     \<and> \<not> is_complex (PyFloat NegZero)
     \<and> py_eq (PyFloat NegZero) (PyInt 0)
     \<and> eval_node rt Map.empty
         (BinOp (Constant (Float_value (Finite 1))) Div (Constant (Float_value NegZero)))
       = Inl ZeroDivisionError"
proof (intro allI)
  fix rt
  have h: "py_eq (PyFloat NegZero) (PyInt 0)"
    by (simp add: py_eq_def float_eq_def)
  show "eval_node rt Map.empty (Constant (Float_value (Finite 1))) = Inr (PyFloat (Finite 1))
     \<and> eval_node rt Map.empty (Constant (Float_value NegZero)) = Inr (PyFloat NegZero)
     \<and> to_double (PyFloat (Finite 1)) = Inr (Finite 1)
     \<and> \<not> is_complex (PyFloat NegZero)
     \<and> py_eq (PyFloat NegZero) (PyInt 0)
     \<and> eval_node rt Map.empty
         (BinOp (Constant (Float_value (Finite 1))) Div (Constant (Float_value NegZero)))
       = Inl ZeroDivisionError"
    using h division_by_zero_raises [of rt Map.empty "Constant (Float_value (Finite 1))"
        "PyFloat (Finite 1)" "Constant (Float_value NegZero)" "PyFloat NegZero" "Finite 1"]
    by simp
qed

subsection \<open>Variables\<close>






subsection \<open>Effects\<close>


lemma safe_eval_result:
  "fst (safe_eval rt expression variables l) =
     (case ast_parse rt expression of
        Inl e \<Rightarrow> Inl e
      | Inr tree \<Rightarrow>
          eval_node rt (case variables of None \<Rightarrow> Map.empty | Some d \<Rightarrow> d) tree)"
  by (simp add: safe_eval_def Let_def split: sum.split)




subsection \<open>Disallowed constructs\<close>

lemma eval_import_call:
  "fst (safe_eval rt ''__import__('os')'' None l) =
     Inl (ValueError (Unsupported_element
       (Call (Name ''__import__'') [Constant (Str_value ''os'')])))"
  by code_simp

lemma eval_two_statements: "fst (safe_eval rt ''1; 2'' None l) = Inl SyntaxError"
  by code_simp

lemma eval_sin_call:
  "fst (safe_eval rt ''sin(1)'' None l) =
     Inl (ValueError (Unsupported_element (Call (Name ''sin'') [Constant (Int_value 1)])))"
  by code_simp

lemma eval_list_display:
  "fst (safe_eval rt ''[1,2,3]'' None l) =
     Inl (ValueError (Unsupported_element
       (List [Constant (Int_value 1), Constant (Int_value 2), Constant (Int_value 3)])))"
  by code_simp

lemma parse_x_plus_sin:
  "ast_parse rt ''x+sin(1)'' =
     Inr (BinOp (Name ''x'') Add (Call (Name ''sin'') [Constant (Int_value 1)]))"
  by code_simp

lemma eval_x_plus_sin:
  "fst (safe_eval rt ''x+sin(1)'' None l) = Inl (ValueError (Undefined_variable ''x''))"
  by code_simp

lemma returned_value_permitted:
  "eval_node rt variables tree = Inr v \<Longrightarrow> permitted tree"
proof (induction tree arbitrary: v)
  case (BinOp left op right)
  then show ?case
    by (cases op) (auto simp add: ALLOWED_OPERATORS_def split: sum.splits)
next
  case (UnaryOp op operand)
  then show ?case
    by (cases op) (auto simp add: ALLOWED_UNARY_OPERATORS_def split: sum.splits)
next
  case (Constant c)
  then show ?case by (cases c) auto
qed auto

lemma eval_quotient_plus_sin:
  "fst (safe_eval rt ''1/0+sin(1)'' None l) = Inl ZeroDivisionError"
  by code_simp

text \<open>
  The claim C1 as stated fails on the kind of the failure. In \<^verbatim>\<open>x+sin(1)\<close> the call
  \<^verbatim>\<open>sin(1)\<close> is a disallowed construct, but the left operand is evaluated first and
  \<^verbatim>\<open>safe_eval\<close> raises the \<^verbatim>\<open>ValueError\<close> for the undefined variable \<^verbatim>\<open>x\<close>; in
  \<^verbatim>\<open>1/0+sin(1)\<close> it raises \<^verbatim>\<open>ZeroDivisionError\<close>. Neither is a syntax error or an
  unsupported operation.
\<close>

theorem earlier_failure_counterexample:
  "\<forall>rt l.
     ast_parse rt ''x+sin(1)'' =
       Inr (BinOp (Name ''x'') Add (Call (Name ''sin'') [Constant (Int_value 1)]))
     \<and> \<not> permitted (BinOp (Name ''x'') Add (Call (Name ''sin'') [Constant (Int_value 1)]))
     \<and> fst (safe_eval rt ''x+sin(1)'' None l) = Inl (ValueError (Undefined_variable ''x''))
     \<and> \<not> syntax_or_unsupported (fst (safe_eval rt ''x+sin(1)'' None l))
     \<and> fst (safe_eval rt ''1/0+sin(1)'' None l) = Inl ZeroDivisionError
     \<and> \<not> syntax_or_unsupported (fst (safe_eval rt ''1/0+sin(1)'' None l))"
  using parse_x_plus_sin eval_x_plus_sin eval_quotient_plus_sin by simp

text \<open>
  C1, amended. An input whose tree holds a node outside the whitelist never returns a
  value: the call raises. A call that returns a value has parsed its input to a tree of
  the whitelist. The inputs \<^verbatim>\<open>__import__('os')\<close>, \<^verbatim>\<open>sin(1)\<close> and \<^verbatim>\<open>[1,2,3]\<close> raise
  the \<^verbatim>\<open>ValueError\<close> for an unsupported element and \<^verbatim>\<open>1; 2\<close> raises \<^verbatim>\<open>SyntaxError\<close>.
  (The failure of an input with a disallowed construct is the first one met from left
  to right, which need not be of these two kinds.)
\<close>

theorem disallowed_constructs_never_return:
  "(\<not> permitted tree \<longrightarrow> (\<exists>e. eval_node rt variables tree = Inl e))
   \<and> (fst (safe_eval rt source vars l) = Inr v \<longrightarrow>
        (\<exists>tree'. ast_parse rt source = Inr tree' \<and> permitted tree'))
   \<and> fst (safe_eval rt ''__import__('os')'' None l) =
       Inl (ValueError (Unsupported_element
         (Call (Name ''__import__'') [Constant (Str_value ''os'')])))
   \<and> fst (safe_eval rt ''1; 2'' None l) = Inl SyntaxError
   \<and> fst (safe_eval rt ''sin(1)'' None l) =
       Inl (ValueError (Unsupported_element (Call (Name ''sin'') [Constant (Int_value 1)])))
   \<and> fst (safe_eval rt ''[1,2,3]'' None l) =
       Inl (ValueError (Unsupported_element
         (List [Constant (Int_value 1), Constant (Int_value 2), Constant (Int_value 3)])))
   \<and> syntax_or_unsupported (fst (safe_eval rt ''__import__('os')'' None l))
   \<and> syntax_or_unsupported (fst (safe_eval rt ''1; 2'' None l))
   \<and> syntax_or_unsupported (fst (safe_eval rt ''sin(1)'' None l))
   \<and> syntax_or_unsupported (fst (safe_eval rt ''[1,2,3]'' None l))"
proof -
  have tree: "\<not> permitted tree \<longrightarrow> (\<exists>e. eval_node rt variables tree = Inl e)"
    using returned_value_permitted [of rt variables tree]
    by (cases "eval_node rt variables tree") auto
  have call: "fst (safe_eval rt source vars l) = Inr v \<longrightarrow>
      (\<exists>tree'. ast_parse rt source = Inr tree' \<and> permitted tree')"
    by (auto simp add: safe_eval_result split: sum.splits dest: returned_value_permitted)
  show ?thesis
    using tree call eval_import_call [of rt l] eval_two_statements [of rt l]
      eval_sin_call [of rt l] eval_list_display [of rt l]
    by simp
qed

theorem disallowed_constructs_never_return_witness:
  "\<forall>rt l.
     \<not> permitted (Call (Name ''sin'') [Constant (Int_value 1)])
     \<and> (\<exists>e. eval_node rt Map.empty (Call (Name ''sin'') [Constant (Int_value 1)]) = Inl e)
     \<and> fst (safe_eval rt ''2+3*4'' None l) = Inr (PyInt 14)
     \<and> (\<exists>tree'. ast_parse rt ''2+3*4'' = Inr tree' \<and> permitted tree')"
proof (intro allI)
  fix rt :: runtime and l :: log
  have a: "\<not> permitted (Call (Name ''sin'') [Constant (Int_value 1)])"
    by simp
  have b: "fst (safe_eval rt ''2+3*4'' None l) = Inr (PyInt 14)"
    by (rule eval_sum_of_product)
  show "\<not> permitted (Call (Name ''sin'') [Constant (Int_value 1)])
     \<and> (\<exists>e. eval_node rt Map.empty (Call (Name ''sin'') [Constant (Int_value 1)]) = Inl e)
     \<and> fst (safe_eval rt ''2+3*4'' None l) = Inr (PyInt 14)
     \<and> (\<exists>tree'. ast_parse rt ''2+3*4'' = Inr tree' \<and> permitted tree')"
    using a b
      disallowed_constructs_never_return [where tree = "Call (Name ''sin'') [Constant (Int_value 1)]"
        and rt = rt and variables = Map.empty and source = "''2+3*4''" and vars = None
        and l = l and v = "PyInt 14"]
    by blast
qed

subsection \<open>Powers that are not real\<close>











subsection \<open>Round trip of a literal\<close>

















































end
